theory Spec2Isabelle
  imports Main "HOL-Library.Sublist"
begin

section \<open>Python values, exceptions and the connection object\<close>

text \<open>
  The module \<^verbatim>\<open>pywbem/wbemcli.py\<close> is dynamically typed: the arguments of the operation
  functions are class names, namespaces, flags, property lists and CIM objects, and each
  of them may also be \<^verbatim>\<open>None\<close>. They are modelled by one datatype of Python values in
  which \<^verbatim>\<open>None\<close>, \<^verbatim>\<open>False\<close>, the empty string and the empty list are all different.
\<close>

datatype pyval =
    PyNone
  | PyBool bool
  | PyInt int
  | PyStr string
  | PyList "pyval list"
  | PyTuple "pyval list"
  | PyObj string "(string \<times> pyval) list"

text \<open>
  Exceptions are values. \<open>IndexError\<close> and \<open>AttributeError\<close> are the two the module's own
  expressions can raise (\<^verbatim>\<open>server[0]\<close> on an empty string, an attribute of \<^verbatim>\<open>CONN\<close>
  while it is still \<^verbatim>\<open>None\<close>); \<open>TypeError\<close> is raised when the arguments of a call cannot be
  bound to the parameters of the function; \<open>EOFError\<close> is what the password prompt raises
  at the end of input; the remaining ones are raised by the methods of the connection
  object.
\<close>

datatype error =
    IndexError
  | AttributeError string
  | TypeError
  | EOFError
  | TransportError string
  | CIMError int string
  | ProtocolError string
  | OtherError string

type_synonym kwargs = "(string \<times> pyval) list"

text \<open>
  Modelled from the spec: the class \<^verbatim>\<open>WBEMConnection\<close> is imported from the package and
  is not part of this module. The spec gives it the attributes \<^verbatim>\<open>url\<close>, \<^verbatim>\<open>creds\<close>
  (an optional username/password pair), \<^verbatim>\<open>default_namespace\<close> and a debug flag, and one
  method per CIM intrinsic operation, each of which returns a result or fails with an
  error after one round trip to the server. The methods are the field \<open>operation\<close>:
  \<open>operation c m args kw\<close> is the Python call \<^verbatim>\<open>c.m(*args, **kw)\<close>, run against the
  outside world \<open>'w\<close> (the server and the network), which it may change.
\<close>

record 'w WBEMConnection =
  url :: string
  creds :: "(string option \<times> string option) option"
  default_namespace :: string
  debug :: bool
  operation :: "string \<Rightarrow> pyval list \<Rightarrow> kwargs \<Rightarrow> 'w \<Rightarrow> (error + pyval) \<times> 'w"

text \<open>
  The module's global variable \<^verbatim>\<open>CONN\<close> (initially \<^verbatim>\<open>None\<close>) together with the outside
  world the connection talks to.
\<close>

record 'w state =
  CONN :: "'w WBEMConnection option"
  world :: 'w

text \<open>The namespace object produced by the argument parser of \<^verbatim>\<open>main\<close>.\<close>

record options =
  server :: "string option"
  port :: "int option"
  no_ssl :: bool
  namespace :: string
  user :: "string option"
  password :: "string option"
  verbose :: bool

section \<open>String formatting\<close>

text \<open>\<^verbatim>\<open>'%d' % n\<close> for an integer: its decimal digits, with a minus sign when negative.\<close>

fun dec_nat :: "nat \<Rightarrow> string" where
  "dec_nat n =
     (if n < 10 then [''0123456789'' ! n]
      else dec_nat (n div 10) @ [''0123456789'' ! (n mod 10)])"

declare dec_nat.simps [simp del]

definition fmt_d :: "int \<Rightarrow> string" where
  "fmt_d i = (if i < 0 then CHR ''-'' # dec_nat (nat (- i)) else dec_nat (nat i))"

text \<open>\<^verbatim>\<open>'%s' % x\<close> for a value that is a string or \<^verbatim>\<open>None\<close>.\<close>

definition fmt_s :: "string option \<Rightarrow> string" where
  "fmt_s x = (case x of None \<Rightarrow> ''None'' | Some t \<Rightarrow> t)"

section \<open>Opening the connection\<close>

text \<open>
  \<^verbatim>\<open>_remote_connection(server, opts)\<close>. The class \<^verbatim>\<open>WBEMConnection\<close> and the prompt
  \<^verbatim>\<open>getpass.getpass\<close> are parameters: \<open>new_conn u c n\<close> is the object built by
  \<^verbatim>\<open>WBEMConnection(u, c, default_namespace=n)\<close>, and \<open>getpass p\<close> is what the user types
  at the prompt \<open>p\<close>, or the exception the prompt raises. The function assigns
  \<^verbatim>\<open>opts.password\<close> and the global \<^verbatim>\<open>CONN\<close>, so it returns the options and the state
  along with its result.
\<close>

definition remote_connection ::
  "(string \<Rightarrow> (string option \<times> string option) option \<Rightarrow> string \<Rightarrow> 'w WBEMConnection) \<Rightarrow>
   (string \<Rightarrow> error + string) \<Rightarrow> string \<Rightarrow> options \<Rightarrow> 'w state \<Rightarrow>
   (error + 'w WBEMConnection) \<times> options \<times> 'w state" where
  "remote_connection new_conn getpass srv opts s =
     (case srv of
        [] \<Rightarrow> (Inl IndexError, opts, s)
      | c0 # _ \<Rightarrow>
          let url0 =
                (if c0 = CHR ''/'' then srv
                 else
                   let proto = (if no_ssl opts then ''http'' else ''https'');
                       u = proto @ ''://'' @ srv
                   in (case port opts of None \<Rightarrow> u | Some p \<Rightarrow> u @ '':'' @ fmt_d p));
              prompted =
                (case (user opts, password opts) of
                   (Some u, None) \<Rightarrow>
                     (case getpass (''Enter password for '' @ u @ '': '') of
                        Inl e \<Rightarrow> Inl e
                      | Inr pw \<Rightarrow> Inr (opts\<lparr>password := Some pw\<rparr>))
                 | _ \<Rightarrow> Inr opts)
          in (case prompted of
                Inl e \<Rightarrow> (Inl e, opts, s)
              | Inr opts' \<Rightarrow>
                  let creds0 =
                        (if user opts' \<noteq> None \<or> password opts' \<noteq> None
                         then Some (user opts', password opts') else None);
                      conn0 = (new_conn url0 creds0 (namespace opts'))\<lparr>debug := True\<rparr>
                  in (Inr conn0, opts', s\<lparr>CONN := Some conn0\<rparr>)))"

section \<open>Calling a method of the global connection\<close>

type_synonym 'w result = "(error + pyval) \<times> 'w state"

text \<open>
  The expression \<^verbatim>\<open>CONN.m(*args, **kw)\<close>: while \<^verbatim>\<open>CONN\<close> is \<^verbatim>\<open>None\<close> the attribute
  lookup raises \<^verbatim>\<open>AttributeError\<close>; otherwise the method runs once against the world.
\<close>

definition call_CONN :: "'w state \<Rightarrow> string \<Rightarrow> pyval list \<Rightarrow> kwargs \<Rightarrow> 'w result" where
  "call_CONN s m args kw =
     (case CONN s of
        None \<Rightarrow> (Inl (AttributeError m), s)
      | Some c \<Rightarrow> (case operation c m args kw (world s) of (res, w') \<Rightarrow> (res, s\<lparr>world := w'\<rparr>)))"

text \<open>
  A function body that ends after an expression statement returns \<^verbatim>\<open>None\<close>: the value
  of the expression is dropped, an exception it raises is not.
\<close>

definition returns_None :: "'w result \<Rightarrow> 'w result" where
  "returns_None r = (case r of (Inl e, s') \<Rightarrow> (Inl e, s') | (Inr _, s') \<Rightarrow> (Inr PyNone, s'))"

text \<open>
  A parameter declared \<^verbatim>\<open>p=None\<close>: the caller either leaves it out (\<open>None\<close> of HOL) or
  passes a value \<open>Some v\<close>, which may itself be \<open>PyNone\<close>.
\<close>

definition or_None :: "pyval option \<Rightarrow> pyval" where
  "or_None p = (case p of None \<Rightarrow> PyNone | Some v \<Rightarrow> v)"

section \<open>The operation functions\<close>

text \<open>
  Each function takes the state first, then its Python parameters in the order of the
  \<^verbatim>\<open>def\<close>; a parameter with a default is a \<open>pyval option\<close>.
  The result is what the call returns or raises, and the state it leaves.
\<close>

text \<open>\<^verbatim>\<open>def EnumerateInstanceNames(cn, ns=None)\<close>\<close>

definition EnumerateInstanceNames ::
  "'w state \<Rightarrow> pyval \<Rightarrow> pyval option \<Rightarrow> 'w result" where
  "EnumerateInstanceNames s cn ns =
     call_CONN s ''EnumerateInstanceNames'' [cn, or_None ns] []"

text \<open>
  \<^verbatim>\<open>def EnumerateInstances(cn, ns=None, lo=None, di=None, iq=None, ico=None, pl=None)\<close>
\<close>

definition EnumerateInstances ::
  "'w state \<Rightarrow> pyval \<Rightarrow> pyval option \<Rightarrow> pyval option \<Rightarrow> pyval option \<Rightarrow> pyval option \<Rightarrow>
   pyval option \<Rightarrow> pyval option \<Rightarrow> 'w result" where
  "EnumerateInstances s cn ns lo di iq ico pl =
     call_CONN s ''EnumerateInstances'' [cn, or_None ns]
       [(''LocalOnly'', or_None lo),
        (''DeepInheritance'', or_None di),
        (''IncludeQualifiers'', or_None iq),
        (''IncludeClassOrigin'', or_None ico),
        (''PropertyList'', or_None pl)]"

text \<open>\<^verbatim>\<open>def GetInstance(ip, lo=None, iq=None, ico=None, pl=None)\<close>\<close>

definition GetInstance ::
  "'w state \<Rightarrow> pyval \<Rightarrow> pyval option \<Rightarrow> pyval option \<Rightarrow> pyval option \<Rightarrow> pyval option \<Rightarrow>
   'w result" where
  "GetInstance s ip lo iq ico pl =
     call_CONN s ''GetInstance'' [ip]
       [(''LocalOnly'', or_None lo),
        (''IncludeQualifiers'', or_None iq),
        (''IncludeClassOrigin'', or_None ico),
        (''PropertyList'', or_None pl)]"

text \<open>\<^verbatim>\<open>def ModifyInstance(mi, iq=None, pl=None)\<close>: the body has no \<^verbatim>\<open>return\<close>.\<close>

definition ModifyInstance ::
  "'w state \<Rightarrow> pyval \<Rightarrow> pyval option \<Rightarrow> pyval option \<Rightarrow> 'w result" where
  "ModifyInstance s mi iq pl =
     returns_None
       (call_CONN s ''ModifyInstance'' [mi]
       [(''IncludeQualifiers'', or_None iq),
        (''PropertyList'', or_None pl)])"

text \<open>\<^verbatim>\<open>def CreateInstance(ni)\<close>\<close>

definition CreateInstance ::
  "'w state \<Rightarrow> pyval \<Rightarrow> 'w result" where
  "CreateInstance s ni =
     call_CONN s ''CreateInstance'' [ni] []"

text \<open>\<^verbatim>\<open>def DeleteInstance(ip)\<close>: the body has no \<^verbatim>\<open>return\<close>.\<close>

definition DeleteInstance ::
  "'w state \<Rightarrow> pyval \<Rightarrow> 'w result" where
  "DeleteInstance s ip =
     returns_None
       (call_CONN s ''DeleteInstance'' [ip] [])"

text \<open>\<^verbatim>\<open>def AssociatorNames(op, ac=None, rc=None, r=None, rr=None)\<close>\<close>

definition AssociatorNames ::
  "'w state \<Rightarrow> pyval \<Rightarrow> pyval option \<Rightarrow> pyval option \<Rightarrow> pyval option \<Rightarrow> pyval option \<Rightarrow>
   'w result" where
  "AssociatorNames s op ac rc r rr =
     call_CONN s ''AssociatorNames'' [op]
       [(''AssocClass'', or_None ac),
        (''ResultClass'', or_None rc),
        (''Role'', or_None r),
        (''ResultRole'', or_None rr)]"

text \<open>
  \<^verbatim>\<open>def Associators(op, ac=None, rc=None, r=None, rr=None, iq=None, ico=None, pl=None)\<close>
\<close>

definition Associators ::
  "'w state \<Rightarrow> pyval \<Rightarrow> pyval option \<Rightarrow> pyval option \<Rightarrow> pyval option \<Rightarrow> pyval option \<Rightarrow>
   pyval option \<Rightarrow> pyval option \<Rightarrow> pyval option \<Rightarrow> 'w result" where
  "Associators s op ac rc r rr iq ico pl =
     call_CONN s ''Associators'' [op]
       [(''AssocClass'', or_None ac),
        (''ResultClass'', or_None rc),
        (''Role'', or_None r),
        (''ResultRole'', or_None rr),
        (''IncludeQualifiers'', or_None iq),
        (''IncludeClassOrigin'', or_None ico),
        (''PropertyList'', or_None pl)]"

text \<open>\<^verbatim>\<open>def ReferenceNames(op, rc=None, r=None)\<close>\<close>

definition ReferenceNames ::
  "'w state \<Rightarrow> pyval \<Rightarrow> pyval option \<Rightarrow> pyval option \<Rightarrow> 'w result" where
  "ReferenceNames s op rc r =
     call_CONN s ''ReferenceNames'' [op]
       [(''ResultClass'', or_None rc),
        (''Role'', or_None r)]"

text \<open>\<^verbatim>\<open>def References(op, rc=None, r=None, iq=None, ico=None, pl=None)\<close>\<close>

definition References ::
  "'w state \<Rightarrow> pyval \<Rightarrow> pyval option \<Rightarrow> pyval option \<Rightarrow> pyval option \<Rightarrow> pyval option \<Rightarrow>
   pyval option \<Rightarrow> 'w result" where
  "References s op rc r iq ico pl =
     call_CONN s ''References'' [op]
       [(''ResultClass'', or_None rc),
        (''Role'', or_None r),
        (''IncludeQualifiers'', or_None iq),
        (''IncludeClassOrigin'', or_None ico),
        (''PropertyList'', or_None pl)]"

text \<open>
  \<^verbatim>\<open>def InvokeMethod(mn, op, *params, **kwparams)\<close>: \<open>params\<close> are the further positional
  arguments of the call and \<open>kwparams\<close> its keyword arguments, in the order written.
  Python binds the arguments before the body runs: a keyword named \<^verbatim>\<open>mn\<close> or \<^verbatim>\<open>op\<close> gives
  that parameter a second value, and a keyword given twice has two values; either call
  raises \<^verbatim>\<open>TypeError\<close> and the body, with its call of \<^verbatim>\<open>CONN.InvokeMethod\<close>, does not run.
\<close>

definition InvokeMethod ::
  "'w state \<Rightarrow> pyval \<Rightarrow> pyval \<Rightarrow> pyval list \<Rightarrow> kwargs \<Rightarrow> 'w result" where
  "InvokeMethod s mn op params kwparams =
     (if ''mn'' \<in> set (map fst kwparams) then (Inl TypeError, s)
      else if ''op'' \<in> set (map fst kwparams) then (Inl TypeError, s)
      else if distinct (map fst kwparams)
        then call_CONN s ''InvokeMethod'' ([mn, op] @ params) kwparams
        else (Inl TypeError, s))"

text \<open>\<^verbatim>\<open>def EnumerateClassNames(ns=None, cn=None, di=None)\<close>: the body passes
  \<^verbatim>\<open>ClassName=ns\<close> and never reads \<^verbatim>\<open>cn\<close>.\<close>

definition EnumerateClassNames ::
  "'w state \<Rightarrow> pyval option \<Rightarrow> pyval option \<Rightarrow> pyval option \<Rightarrow> 'w result" where
  "EnumerateClassNames s ns cn di =
     call_CONN s ''EnumerateClassNames'' [or_None ns]
       [(''ClassName'', or_None ns),
        (''DeepInheritance'', or_None di)]"

text \<open>\<^verbatim>\<open>def EnumerateClasses(ns=None, cn=None, di=None, lo=None, iq=None, ico=None)\<close>: the body calls
  \<^verbatim>\<open>CONN.EnumerateClassNames\<close>.\<close>

definition EnumerateClasses ::
  "'w state \<Rightarrow> pyval option \<Rightarrow> pyval option \<Rightarrow> pyval option \<Rightarrow> pyval option \<Rightarrow> pyval option \<Rightarrow>
   pyval option \<Rightarrow> 'w result" where
  "EnumerateClasses s ns cn di lo iq ico =
     call_CONN s ''EnumerateClassNames'' [or_None ns]
       [(''ClassName'', or_None cn),
        (''DeepInheritance'', or_None di),
        (''LocalOnly'', or_None lo),
        (''IncludeQualifiers'', or_None iq),
        (''IncludeClassOrigin'', or_None ico)]"

text \<open>\<^verbatim>\<open>def GetClass(cn, ns=None, lo=None, iq=None, ico=None, pl=None)\<close>\<close>

definition GetClass ::
  "'w state \<Rightarrow> pyval \<Rightarrow> pyval option \<Rightarrow> pyval option \<Rightarrow> pyval option \<Rightarrow> pyval option \<Rightarrow>
   pyval option \<Rightarrow> 'w result" where
  "GetClass s cn ns lo iq ico pl =
     call_CONN s ''GetClass'' [cn, or_None ns]
       [(''LocalOnly'', or_None lo),
        (''IncludeQualifiers'', or_None iq),
        (''IncludeClassOrigin'', or_None ico),
        (''PropertyList'', or_None pl)]"

text \<open>\<^verbatim>\<open>def ModifyClass(mc, ns=None)\<close>: the body returns the method's value.\<close>

definition ModifyClass ::
  "'w state \<Rightarrow> pyval \<Rightarrow> pyval option \<Rightarrow> 'w result" where
  "ModifyClass s mc ns =
     call_CONN s ''ModifyClass'' [mc, or_None ns] []"

text \<open>\<^verbatim>\<open>def CreateClass(nc, ns=None)\<close>: the body has no \<^verbatim>\<open>return\<close>.\<close>

definition CreateClass ::
  "'w state \<Rightarrow> pyval \<Rightarrow> pyval option \<Rightarrow> 'w result" where
  "CreateClass s nc ns =
     returns_None
       (call_CONN s ''CreateClass'' [nc, or_None ns] [])"

text \<open>\<^verbatim>\<open>def DeleteClass(cn, ns=None)\<close>: the body has no \<^verbatim>\<open>return\<close>.\<close>

definition DeleteClass ::
  "'w state \<Rightarrow> pyval \<Rightarrow> pyval option \<Rightarrow> 'w result" where
  "DeleteClass s cn ns =
     returns_None
       (call_CONN s ''DeleteClass'' [cn, or_None ns] [])"

text \<open>\<^verbatim>\<open>def EnumerateQualifiers(ns=None)\<close>\<close>

definition EnumerateQualifiers ::
  "'w state \<Rightarrow> pyval option \<Rightarrow> 'w result" where
  "EnumerateQualifiers s ns =
     call_CONN s ''EnumerateQualifiers'' [or_None ns] []"

text \<open>\<^verbatim>\<open>def GetQualifier(qn, ns=None)\<close>\<close>

definition GetQualifier ::
  "'w state \<Rightarrow> pyval \<Rightarrow> pyval option \<Rightarrow> 'w result" where
  "GetQualifier s qn ns =
     call_CONN s ''GetQualifier'' [qn, or_None ns] []"

text \<open>\<^verbatim>\<open>def SetQualifier(qd, ns=None)\<close>: the body has no \<^verbatim>\<open>return\<close>.\<close>

definition SetQualifier ::
  "'w state \<Rightarrow> pyval \<Rightarrow> pyval option \<Rightarrow> 'w result" where
  "SetQualifier s qd ns =
     returns_None
       (call_CONN s ''SetQualifier'' [qd, or_None ns] [])"

text \<open>\<^verbatim>\<open>def DeleteQualifier(qn, ns=None)\<close>: the body has no \<^verbatim>\<open>return\<close>.\<close>

definition DeleteQualifier ::
  "'w state \<Rightarrow> pyval \<Rightarrow> pyval option \<Rightarrow> 'w result" where
  "DeleteQualifier s qn ns =
     returns_None
       (call_CONN s ''DeleteQualifier'' [qn, or_None ns] [])"

section \<open>The connection summary\<close>

text \<open>
  \<^verbatim>\<open>_get_connection_info()\<close>: reads \<^verbatim>\<open>CONN.url\<close>, \<^verbatim>\<open>CONN.creds\<close> and
  \<^verbatim>\<open>CONN.default_namespace\<close>; the first attribute lookup raises while \<^verbatim>\<open>CONN\<close> is
  \<^verbatim>\<open>None\<close>.
\<close>

definition get_connection_info :: "'w state \<Rightarrow> error + string" where
  "get_connection_info s =
     (case CONN s of
        None \<Rightarrow> Inl (AttributeError ''url'')
      | Some c \<Rightarrow>
          let info = ''Connected to '' @ url c;
              info = (case creds c of
                        Some cr \<Rightarrow> info @ '' as '' @ fmt_s (fst cr)
                      | None \<Rightarrow> info @ '' without credentials'');
              info = info @ '', default namespace '' @ default_namespace c
          in Inr info)"

section \<open>A connection that records its calls\<close>

text \<open>
  For concrete evaluations: a connection object whose world is the list of calls made so
  far. Every method appends its name and arguments to that list and answers with
  \<open>reply\<close> of its name.
\<close>

type_synonym call_log = "(string \<times> pyval list \<times> kwargs) list"

definition recording_connection ::
  "(string \<Rightarrow> error + pyval) \<Rightarrow> string \<Rightarrow> (string option \<times> string option) option \<Rightarrow> string \<Rightarrow>
   call_log WBEMConnection" where
  "recording_connection reply u cr n =
     \<lparr>url = u, creds = cr, default_namespace = n, debug = False,
      operation = (\<lambda>m args kw log. (reply m, log @ [(m, args, kw)]))\<rparr>"

text \<open>A server that answers every operation with the operation's name.\<close>

definition echo_connection :: "call_log WBEMConnection" where
  "echo_connection =
     recording_connection (\<lambda>m. Inr (PyStr m)) ''https://localhost:5989'' None ''root/cimv2''"

definition echo_state :: "call_log state" where
  "echo_state = \<lparr>CONN = Some echo_connection, world = []\<rparr>"

text \<open>A server that answers every operation with the CIM error \<^verbatim>\<open>CIM_ERR_NOT_FOUND\<close>.\<close>

definition failing_connection :: "call_log WBEMConnection" where
  "failing_connection =
     recording_connection (\<lambda>m. Inl (CIMError 6 ''CIM_ERR_NOT_FOUND''))
       ''https://localhost:5989'' (Some (Some ''sheldon'', Some ''penny42'')) ''root/cimv2''"

definition failing_state :: "call_log state" where
  "failing_state = \<lparr>CONN = Some failing_connection, world = []\<rparr>"

section \<open>The short names\<close>

text \<open>The module binds each short name to the function its long name denotes.\<close>

definition ein where
  "ein = EnumerateInstanceNames"

definition ei where
  "ei = EnumerateInstances"

definition gi where
  "gi = GetInstance"

definition mi where
  "mi = ModifyInstance"

definition ci where
  "ci = CreateInstance"

definition di where
  "di = DeleteInstance"

definition an where
  "an = AssociatorNames"

definition a where
  "a = Associators"

definition rn where
  "rn = ReferenceNames"

definition r where
  "r = References"

definition im where
  "im = InvokeMethod"

definition ecn where
  "ecn = EnumerateClassNames"

definition ec where
  "ec = EnumerateClasses"

definition gc where
  "gc = GetClass"

definition mc where
  "mc = ModifyClass"

definition cc where
  "cc = CreateClass"

definition dc where
  "dc = DeleteClass"

definition eq where
  "eq = EnumerateQualifiers"

definition gq where
  "gq = GetQualifier"

definition sq where
  "sq = SetQualifier"

definition dq where
  "dq = DeleteQualifier"

section \<open>Auxiliary facts\<close>

lemma sublist_mid: "sublist ys (xs @ ys @ zs)"
  by (auto simp: sublist_def)



lemma call_CONN_Some:
  "CONN s = Some c \<Longrightarrow>
   call_CONN s m args kw =
     (case operation c m args kw (world s) of (res, w') \<Rightarrow> (res, s\<lparr>world := w'\<rparr>))"
  by (simp add: call_CONN_def)

lemma returns_None_case:
  "returns_None (case x of (res, w') \<Rightarrow> (res, f w')) =
     (case x of (res, w') \<Rightarrow> ((case res of Inl e \<Rightarrow> Inl e | Inr v \<Rightarrow> Inr PyNone), f w'))"
  by (simp add: returns_None_def split: prod.splits sum.splits)

lemma returns_None_Inl: "returns_None (Inl e, s') = (Inl e, s')"
  by (simp add: returns_None_def)

lemma returns_None_Inr: "returns_None (Inr v, s') = (Inr PyNone, s')"
  by (simp add: returns_None_def)

lemmas wrapper_defs =
  EnumerateInstanceNames_def EnumerateInstances_def GetInstance_def ModifyInstance_def
  CreateInstance_def DeleteInstance_def AssociatorNames_def Associators_def
  ReferenceNames_def References_def InvokeMethod_def EnumerateClassNames_def
  EnumerateClasses_def GetClass_def ModifyClass_def CreateClass_def DeleteClass_def
  EnumerateQualifiers_def GetQualifier_def SetQualifier_def DeleteQualifier_def

lemmas fixture_defs =
  echo_state_def echo_connection_def failing_state_def failing_connection_def
  recording_connection_def

lemma remote_connection_result:
  assumes "srv = c0 # rest"
    and "\<forall>u. user opts = Some u \<and> password opts = None \<longrightarrow>
           getpass (''Enter password for '' @ u @ '': '') = Inr pw"
  shows
    "remote_connection new_conn getpass srv opts s =
       (let u = (if c0 = CHR ''/'' then srv
                 else (if no_ssl opts then ''http'' else ''https'') @ ''://'' @ srv @
                      (case port opts of None \<Rightarrow> [] | Some p \<Rightarrow> '':'' @ fmt_d p));
            pw' = (if user opts \<noteq> None \<and> password opts = None then Some pw
                   else password opts);
            cr = (if user opts = None \<and> pw' = None then None else Some (user opts, pw'));
            conn = (new_conn u cr (namespace opts))\<lparr>debug := True\<rparr>
        in (Inr conn, opts\<lparr>password := pw'\<rparr>, s\<lparr>CONN := Some conn\<rparr>))"
  using assms
  by (cases "user opts"; cases "password opts"; cases "port opts")
     (simp_all add: remote_connection_def Let_def)

section \<open>The operation functions are pass-throughs\<close>




text \<open>
  Claim C2 says that \<^verbatim>\<open>EnumerateClassNames(ns, cn, di)\<close> with \<^verbatim>\<open>cn=None\<close> and \<^verbatim>\<open>di=None\<close>
  forwards \<^verbatim>\<open>ClassName=None\<close>, never the namespace. The code forwards the namespace: with
  \<^verbatim>\<open>ns='root/cimv2'\<close> the method receives \<^verbatim>\<open>ClassName='root/cimv2'\<close>.
\<close>

theorem EnumerateClassNames_forwards_namespace_as_ClassName:
  "EnumerateClassNames echo_state (Some (PyStr ''root/cimv2'')) (Some PyNone) (Some PyNone) =
     (Inr (PyStr ''EnumerateClassNames''),
      echo_state\<lparr>world :=
        [(''EnumerateClassNames'', [PyStr ''root/cimv2''],
          [(''ClassName'', PyStr ''root/cimv2''), (''DeepInheritance'', PyNone)])]\<rparr>) \<and>
   PyStr ''root/cimv2'' \<noteq> PyNone"
  by (simp add: EnumerateClassNames_def call_CONN_def or_None_def fixture_defs)

text \<open>
  Claim C3 says that \<^verbatim>\<open>EnumerateClasses\<close> invokes the connection's \<^verbatim>\<open>EnumerateClasses\<close>
  operation. The code invokes \<^verbatim>\<open>EnumerateClassNames\<close>, with the options of
  \<^verbatim>\<open>EnumerateClasses\<close>, and yields the answer of \<^verbatim>\<open>EnumerateClassNames\<close>.
\<close>

theorem EnumerateClasses_calls_EnumerateClassNames:
  "EnumerateClasses echo_state (Some (PyStr ''root/cimv2'')) (Some (PyStr ''CIM_Fan''))
     (Some (PyBool True)) (Some (PyBool False)) None None =
     (Inr (PyStr ''EnumerateClassNames''),
      echo_state\<lparr>world :=
        [(''EnumerateClassNames'', [PyStr ''root/cimv2''],
          [(''ClassName'', PyStr ''CIM_Fan''), (''DeepInheritance'', PyBool True),
           (''LocalOnly'', PyBool False), (''IncludeQualifiers'', PyNone),
           (''IncludeClassOrigin'', PyNone)])]\<rparr>) \<and>
   fst (operation echo_connection ''EnumerateClasses'' [PyStr ''root/cimv2'']
          [(''ClassName'', PyStr ''CIM_Fan''), (''DeepInheritance'', PyBool True),
           (''LocalOnly'', PyBool False), (''IncludeQualifiers'', PyNone),
           (''IncludeClassOrigin'', PyNone)] (world echo_state)) =
     Inr (PyStr ''EnumerateClasses'')"
  by (simp add: EnumerateClasses_def call_CONN_def or_None_def fixture_defs)

text \<open>
  Claim C4: every optional parameter of an operation function (the namespace, the flags
  \<^verbatim>\<open>LocalOnly\<close>, \<^verbatim>\<open>DeepInheritance\<close>, \<^verbatim>\<open>IncludeQualifiers\<close> and \<^verbatim>\<open>IncludeClassOrigin\<close>, the
  property list, the association and role filters) defaults to \<^verbatim>\<open>None\<close>, and one the
  caller leaves out reaches the connection method as \<^verbatim>\<open>None\<close>, whatever the other
  arguments are; one the caller sets reaches it as set. \<^verbatim>\<open>None\<close> is none of \<^verbatim>\<open>False\<close>,
  \<^verbatim>\<open>True\<close>, zero, the empty string, the empty list and the empty tuple, so a flag left out
  differs from a flag set to \<^verbatim>\<open>False\<close>. The class name of \<^verbatim>\<open>EnumerateClassNames\<close> is not
  one of these parameters: its keyword \<^verbatim>\<open>ClassName\<close> carries the namespace.
\<close>

theorem unset_parameters_forwarded_as_None:
  assumes "CONN s = Some c"
  shows
    "or_None None = PyNone \<and> (\<forall>v. or_None (Some v) = v) \<and>
     PyNone \<noteq> PyBool False \<and> PyNone \<noteq> PyBool True \<and> PyNone \<noteq> PyInt 0 \<and>
     PyNone \<noteq> PyStr [] \<and> PyNone \<noteq> PyList [] \<and> PyNone \<noteq> PyTuple [] \<and>
     EnumerateInstanceNames s cn ns =
       (case operation c ''EnumerateInstanceNames'' [cn, or_None ns] [] (world s) of
        (res, w') \<Rightarrow> (res, s\<lparr>world := w'\<rparr>)) \<and>
     EnumerateInstances s cn ns lo deep iq ico pl =
       (case operation c ''EnumerateInstances'' [cn, or_None ns]
          [(''LocalOnly'', or_None lo),
           (''DeepInheritance'', or_None deep),
           (''IncludeQualifiers'', or_None iq),
           (''IncludeClassOrigin'', or_None ico),
           (''PropertyList'', or_None pl)] (world s) of
        (res, w') \<Rightarrow> (res, s\<lparr>world := w'\<rparr>)) \<and>
     GetInstance s ip lo iq ico pl =
       (case operation c ''GetInstance'' [ip]
          [(''LocalOnly'', or_None lo),
           (''IncludeQualifiers'', or_None iq),
           (''IncludeClassOrigin'', or_None ico),
           (''PropertyList'', or_None pl)] (world s) of
        (res, w') \<Rightarrow> (res, s\<lparr>world := w'\<rparr>)) \<and>
     ModifyInstance s inst iq pl =
       (case operation c ''ModifyInstance'' [inst]
          [(''IncludeQualifiers'', or_None iq),
           (''PropertyList'', or_None pl)] (world s) of
        (res, w') \<Rightarrow>
          ((case res of Inl e \<Rightarrow> Inl e | Inr v \<Rightarrow> Inr PyNone), s\<lparr>world := w'\<rparr>)) \<and>
     AssociatorNames s op ac rc role rr =
       (case operation c ''AssociatorNames'' [op]
          [(''AssocClass'', or_None ac),
           (''ResultClass'', or_None rc),
           (''Role'', or_None role),
           (''ResultRole'', or_None rr)] (world s) of
        (res, w') \<Rightarrow> (res, s\<lparr>world := w'\<rparr>)) \<and>
     Associators s op ac rc role rr iq ico pl =
       (case operation c ''Associators'' [op]
          [(''AssocClass'', or_None ac),
           (''ResultClass'', or_None rc),
           (''Role'', or_None role),
           (''ResultRole'', or_None rr),
           (''IncludeQualifiers'', or_None iq),
           (''IncludeClassOrigin'', or_None ico),
           (''PropertyList'', or_None pl)] (world s) of
        (res, w') \<Rightarrow> (res, s\<lparr>world := w'\<rparr>)) \<and>
     ReferenceNames s op rc role =
       (case operation c ''ReferenceNames'' [op]
          [(''ResultClass'', or_None rc),
           (''Role'', or_None role)] (world s) of
        (res, w') \<Rightarrow> (res, s\<lparr>world := w'\<rparr>)) \<and>
     References s op rc role iq ico pl =
       (case operation c ''References'' [op]
          [(''ResultClass'', or_None rc),
           (''Role'', or_None role),
           (''IncludeQualifiers'', or_None iq),
           (''IncludeClassOrigin'', or_None ico),
           (''PropertyList'', or_None pl)] (world s) of
        (res, w') \<Rightarrow> (res, s\<lparr>world := w'\<rparr>)) \<and>
     EnumerateClassNames s ns cname deep =
       (case operation c ''EnumerateClassNames'' [or_None ns]
          [(''ClassName'', or_None ns),
           (''DeepInheritance'', or_None deep)] (world s) of
        (res, w') \<Rightarrow> (res, s\<lparr>world := w'\<rparr>)) \<and>
     EnumerateClasses s ns cname deep lo iq ico =
       (case operation c ''EnumerateClassNames'' [or_None ns]
          [(''ClassName'', or_None cname),
           (''DeepInheritance'', or_None deep),
           (''LocalOnly'', or_None lo),
           (''IncludeQualifiers'', or_None iq),
           (''IncludeClassOrigin'', or_None ico)] (world s) of
        (res, w') \<Rightarrow> (res, s\<lparr>world := w'\<rparr>)) \<and>
     GetClass s cn ns lo iq ico pl =
       (case operation c ''GetClass'' [cn, or_None ns]
          [(''LocalOnly'', or_None lo),
           (''IncludeQualifiers'', or_None iq),
           (''IncludeClassOrigin'', or_None ico),
           (''PropertyList'', or_None pl)] (world s) of
        (res, w') \<Rightarrow> (res, s\<lparr>world := w'\<rparr>)) \<and>
     ModifyClass s cls ns =
       (case operation c ''ModifyClass'' [cls, or_None ns] [] (world s) of
        (res, w') \<Rightarrow> (res, s\<lparr>world := w'\<rparr>)) \<and>
     CreateClass s nc ns =
       (case operation c ''CreateClass'' [nc, or_None ns] [] (world s) of
        (res, w') \<Rightarrow>
          ((case res of Inl e \<Rightarrow> Inl e | Inr v \<Rightarrow> Inr PyNone), s\<lparr>world := w'\<rparr>)) \<and>
     DeleteClass s cn ns =
       (case operation c ''DeleteClass'' [cn, or_None ns] [] (world s) of
        (res, w') \<Rightarrow>
          ((case res of Inl e \<Rightarrow> Inl e | Inr v \<Rightarrow> Inr PyNone), s\<lparr>world := w'\<rparr>)) \<and>
     EnumerateQualifiers s ns =
       (case operation c ''EnumerateQualifiers'' [or_None ns] [] (world s) of
        (res, w') \<Rightarrow> (res, s\<lparr>world := w'\<rparr>)) \<and>
     GetQualifier s qn ns =
       (case operation c ''GetQualifier'' [qn, or_None ns] [] (world s) of
        (res, w') \<Rightarrow> (res, s\<lparr>world := w'\<rparr>)) \<and>
     SetQualifier s qd ns =
       (case operation c ''SetQualifier'' [qd, or_None ns] [] (world s) of
        (res, w') \<Rightarrow>
          ((case res of Inl e \<Rightarrow> Inl e | Inr v \<Rightarrow> Inr PyNone), s\<lparr>world := w'\<rparr>)) \<and>
     DeleteQualifier s qn ns =
       (case operation c ''DeleteQualifier'' [qn, or_None ns] [] (world s) of
        (res, w') \<Rightarrow>
          ((case res of Inl e \<Rightarrow> Inl e | Inr v \<Rightarrow> Inr PyNone), s\<lparr>world := w'\<rparr>))"
  using assms
  by (simp add: wrapper_defs call_CONN_Some returns_None_case or_None_def)

theorem unset_parameters_forwarded_as_None_witness:
  "CONN echo_state = Some echo_connection \<and>
   EnumerateInstanceNames echo_state (PyStr ''CIM_Fan'') None =
     (Inr (PyStr ''EnumerateInstanceNames''),
      echo_state\<lparr>world :=
         [(''EnumerateInstanceNames'', [PyStr ''CIM_Fan'', PyNone], [])]\<rparr>) \<and>
   EnumerateInstances echo_state (PyStr ''CIM_Fan'') None None None None None None =
     (Inr (PyStr ''EnumerateInstances''),
      echo_state\<lparr>world :=
         [(''EnumerateInstances'', [PyStr ''CIM_Fan'', PyNone],
           [(''LocalOnly'', PyNone),
            (''DeepInheritance'', PyNone),
            (''IncludeQualifiers'', PyNone),
            (''IncludeClassOrigin'', PyNone),
            (''PropertyList'', PyNone)])]\<rparr>) \<and>
   GetInstance echo_state (PyObj ''CIMInstanceName'' []) None None None None =
     (Inr (PyStr ''GetInstance''),
      echo_state\<lparr>world :=
         [(''GetInstance'', [PyObj ''CIMInstanceName'' []],
           [(''LocalOnly'', PyNone),
            (''IncludeQualifiers'', PyNone),
            (''IncludeClassOrigin'', PyNone),
            (''PropertyList'', PyNone)])]\<rparr>) \<and>
   ModifyInstance echo_state (PyObj ''CIMInstance'' []) None None =
     (Inr PyNone,
      echo_state\<lparr>world :=
         [(''ModifyInstance'', [PyObj ''CIMInstance'' []],
           [(''IncludeQualifiers'', PyNone),
            (''PropertyList'', PyNone)])]\<rparr>) \<and>
   AssociatorNames echo_state (PyObj ''CIMClassName'' []) None None None None =
     (Inr (PyStr ''AssociatorNames''),
      echo_state\<lparr>world :=
         [(''AssociatorNames'', [PyObj ''CIMClassName'' []],
           [(''AssocClass'', PyNone),
            (''ResultClass'', PyNone),
            (''Role'', PyNone),
            (''ResultRole'', PyNone)])]\<rparr>) \<and>
   Associators echo_state (PyObj ''CIMClassName'' []) None None None None None None
       None =
     (Inr (PyStr ''Associators''),
      echo_state\<lparr>world :=
         [(''Associators'', [PyObj ''CIMClassName'' []],
           [(''AssocClass'', PyNone),
            (''ResultClass'', PyNone),
            (''Role'', PyNone),
            (''ResultRole'', PyNone),
            (''IncludeQualifiers'', PyNone),
            (''IncludeClassOrigin'', PyNone),
            (''PropertyList'', PyNone)])]\<rparr>) \<and>
   ReferenceNames echo_state (PyObj ''CIMClassName'' []) None None =
     (Inr (PyStr ''ReferenceNames''),
      echo_state\<lparr>world :=
         [(''ReferenceNames'', [PyObj ''CIMClassName'' []],
           [(''ResultClass'', PyNone),
            (''Role'', PyNone)])]\<rparr>) \<and>
   References echo_state (PyObj ''CIMClassName'' []) None None None None None =
     (Inr (PyStr ''References''),
      echo_state\<lparr>world :=
         [(''References'', [PyObj ''CIMClassName'' []],
           [(''ResultClass'', PyNone),
            (''Role'', PyNone),
            (''IncludeQualifiers'', PyNone),
            (''IncludeClassOrigin'', PyNone),
            (''PropertyList'', PyNone)])]\<rparr>) \<and>
   EnumerateClassNames echo_state None None None =
     (Inr (PyStr ''EnumerateClassNames''),
      echo_state\<lparr>world :=
         [(''EnumerateClassNames'', [PyNone],
           [(''ClassName'', PyNone),
            (''DeepInheritance'', PyNone)])]\<rparr>) \<and>
   EnumerateClasses echo_state None None None None None None =
     (Inr (PyStr ''EnumerateClassNames''),
      echo_state\<lparr>world :=
         [(''EnumerateClassNames'', [PyNone],
           [(''ClassName'', PyNone),
            (''DeepInheritance'', PyNone),
            (''LocalOnly'', PyNone),
            (''IncludeQualifiers'', PyNone),
            (''IncludeClassOrigin'', PyNone)])]\<rparr>) \<and>
   GetClass echo_state (PyStr ''CIM_Fan'') None None None None None =
     (Inr (PyStr ''GetClass''),
      echo_state\<lparr>world :=
         [(''GetClass'', [PyStr ''CIM_Fan'', PyNone],
           [(''LocalOnly'', PyNone),
            (''IncludeQualifiers'', PyNone),
            (''IncludeClassOrigin'', PyNone),
            (''PropertyList'', PyNone)])]\<rparr>) \<and>
   ModifyClass echo_state (PyObj ''CIMClass'' []) None =
     (Inr (PyStr ''ModifyClass''),
      echo_state\<lparr>world :=
         [(''ModifyClass'', [PyObj ''CIMClass'' [], PyNone], [])]\<rparr>) \<and>
   CreateClass echo_state (PyObj ''CIMClass'' []) None =
     (Inr PyNone,
      echo_state\<lparr>world :=
         [(''CreateClass'', [PyObj ''CIMClass'' [], PyNone], [])]\<rparr>) \<and>
   DeleteClass echo_state (PyStr ''CIM_Fan'') None =
     (Inr PyNone,
      echo_state\<lparr>world :=
         [(''DeleteClass'', [PyStr ''CIM_Fan'', PyNone], [])]\<rparr>) \<and>
   EnumerateQualifiers echo_state None =
     (Inr (PyStr ''EnumerateQualifiers''),
      echo_state\<lparr>world :=
         [(''EnumerateQualifiers'', [PyNone], [])]\<rparr>) \<and>
   GetQualifier echo_state (PyStr ''Key'') None =
     (Inr (PyStr ''GetQualifier''),
      echo_state\<lparr>world :=
         [(''GetQualifier'', [PyStr ''Key'', PyNone], [])]\<rparr>) \<and>
   SetQualifier echo_state (PyObj ''CIMQualifierDeclaration'' []) None =
     (Inr PyNone,
      echo_state\<lparr>world :=
         [(''SetQualifier'', [PyObj ''CIMQualifierDeclaration'' [], PyNone], [])]\<rparr>) \<and>
   DeleteQualifier echo_state (PyStr ''Key'') None =
     (Inr PyNone,
      echo_state\<lparr>world :=
         [(''DeleteQualifier'', [PyStr ''Key'', PyNone], [])]\<rparr>) \<and>
   EnumerateInstances echo_state (PyStr ''CIM_Fan'') (Some (PyStr []))
       (Some (PyBool False)) (Some (PyBool False)) (Some (PyBool False))
       (Some (PyBool False)) (Some (PyList [])) =
     (Inr (PyStr ''EnumerateInstances''),
      echo_state\<lparr>world :=
         [(''EnumerateInstances'', [PyStr ''CIM_Fan'', PyStr []],
           [(''LocalOnly'', PyBool False),
            (''DeepInheritance'', PyBool False),
            (''IncludeQualifiers'', PyBool False),
            (''IncludeClassOrigin'', PyBool False),
            (''PropertyList'', PyList [])])]\<rparr>) \<and>
   GetInstance echo_state (PyObj ''CIMInstanceName'' []) (Some (PyBool False))
       (Some (PyBool False)) (Some (PyBool False)) (Some (PyList [])) =
     (Inr (PyStr ''GetInstance''),
      echo_state\<lparr>world :=
         [(''GetInstance'', [PyObj ''CIMInstanceName'' []],
           [(''LocalOnly'', PyBool False),
            (''IncludeQualifiers'', PyBool False),
            (''IncludeClassOrigin'', PyBool False),
            (''PropertyList'', PyList [])])]\<rparr>) \<and>
   Associators echo_state (PyObj ''CIMClassName'' []) (Some (PyStr []))
       (Some (PyStr [])) (Some (PyStr [])) (Some (PyStr [])) (Some (PyBool False))
       (Some (PyBool False)) (Some (PyList [])) =
     (Inr (PyStr ''Associators''),
      echo_state\<lparr>world :=
         [(''Associators'', [PyObj ''CIMClassName'' []],
           [(''AssocClass'', PyStr []),
            (''ResultClass'', PyStr []),
            (''Role'', PyStr []),
            (''ResultRole'', PyStr []),
            (''IncludeQualifiers'', PyBool False),
            (''IncludeClassOrigin'', PyBool False),
            (''PropertyList'', PyList [])])]\<rparr>) \<and>
   EnumerateClassNames echo_state (Some (PyStr [])) (Some (PyStr []))
       (Some (PyBool False)) =
     (Inr (PyStr ''EnumerateClassNames''),
      echo_state\<lparr>world :=
         [(''EnumerateClassNames'', [PyStr []],
           [(''ClassName'', PyStr []),
            (''DeepInheritance'', PyBool False)])]\<rparr>) \<and>
   EnumerateClasses echo_state (Some (PyStr [])) (Some (PyStr []))
       (Some (PyBool False)) (Some (PyBool False)) (Some (PyBool False))
       (Some (PyBool False)) =
     (Inr (PyStr ''EnumerateClassNames''),
      echo_state\<lparr>world :=
         [(''EnumerateClassNames'', [PyStr []],
           [(''ClassName'', PyStr []),
            (''DeepInheritance'', PyBool False),
            (''LocalOnly'', PyBool False),
            (''IncludeQualifiers'', PyBool False),
            (''IncludeClassOrigin'', PyBool False)])]\<rparr>)"
  using
    unset_parameters_forwarded_as_None
    [where cn = "PyStr ''CIM_Fan''" and
      ns = "None" and
      lo = "None" and
      deep = "None" and
      iq = "None" and
      ico = "None" and
      pl = "None" and
      ip = "PyObj ''CIMInstanceName'' []" and
      inst = "PyObj ''CIMInstance'' []" and
      op = "PyObj ''CIMClassName'' []" and
      ac = "None" and
      rc = "None" and
      role = "None" and
      rr = "None" and
      cname = "None" and
      cls = "PyObj ''CIMClass'' []" and
      nc = "PyObj ''CIMClass'' []" and
      qn = "PyStr ''Key''" and
      qd = "PyObj ''CIMQualifierDeclaration'' []" and
      s = "echo_state" and
      c = "echo_connection"]
    unset_parameters_forwarded_as_None
    [where cn = "PyStr ''CIM_Fan''" and
      ns = "Some (PyStr [])" and
      lo = "Some (PyBool False)" and
      deep = "Some (PyBool False)" and
      iq = "Some (PyBool False)" and
      ico = "Some (PyBool False)" and
      pl = "Some (PyList [])" and
      ip = "PyObj ''CIMInstanceName'' []" and
      inst = "PyObj ''CIMInstance'' []" and
      op = "PyObj ''CIMClassName'' []" and
      ac = "Some (PyStr [])" and
      rc = "Some (PyStr [])" and
      role = "Some (PyStr [])" and
      rr = "Some (PyStr [])" and
      cname = "Some (PyStr [])" and
      cls = "PyObj ''CIMClass'' []" and
      nc = "PyObj ''CIMClass'' []" and
      qn = "PyStr ''Key''" and
      qd = "PyObj ''CIMQualifierDeclaration'' []" and
      s = "echo_state" and
      c = "echo_connection"]
  by (simp add: fixture_defs)

section \<open>Errors and return values\<close>

text \<open>
  Claim C6: when the connection method an operation function calls raises an error, the
  function raises that same error and yields no value, and the world is the one that
  single call left behind: the method is not called again, and the state has no
  component in which a result could be kept. The method of \<^verbatim>\<open>InvokeMethod\<close> is called, and
  so can raise, only when Python can bind the call: the keyword arguments have different
  names and none is named \<^verbatim>\<open>mn\<close> or \<^verbatim>\<open>op\<close>.
\<close>

theorem errors_propagate:
  assumes "CONN s = Some c"
  shows
    "(\<forall>e w'. operation c ''EnumerateInstanceNames'' [cn, or_None ns] [] (world s) = (Inl e, w') \<longrightarrow>
        EnumerateInstanceNames s cn ns = (Inl e, s\<lparr>world := w'\<rparr>)) \<and>
     (\<forall>e w'. operation c ''EnumerateInstances'' [cn, or_None ns]
          [(''LocalOnly'', or_None lo),
           (''DeepInheritance'', or_None deep),
           (''IncludeQualifiers'', or_None iq),
           (''IncludeClassOrigin'', or_None ico),
           (''PropertyList'', or_None pl)] (world s) = (Inl e, w') \<longrightarrow>
        EnumerateInstances s cn ns lo deep iq ico pl = (Inl e, s\<lparr>world := w'\<rparr>)) \<and>
     (\<forall>e w'. operation c ''GetInstance'' [ip]
          [(''LocalOnly'', or_None lo),
           (''IncludeQualifiers'', or_None iq),
           (''IncludeClassOrigin'', or_None ico),
           (''PropertyList'', or_None pl)] (world s) = (Inl e, w') \<longrightarrow>
        GetInstance s ip lo iq ico pl = (Inl e, s\<lparr>world := w'\<rparr>)) \<and>
     (\<forall>e w'. operation c ''ModifyInstance'' [inst]
          [(''IncludeQualifiers'', or_None iq),
           (''PropertyList'', or_None pl)] (world s) = (Inl e, w') \<longrightarrow>
        ModifyInstance s inst iq pl = (Inl e, s\<lparr>world := w'\<rparr>)) \<and>
     (\<forall>e w'. operation c ''CreateInstance'' [ni] [] (world s) = (Inl e, w') \<longrightarrow>
        CreateInstance s ni = (Inl e, s\<lparr>world := w'\<rparr>)) \<and>
     (\<forall>e w'. operation c ''DeleteInstance'' [ip] [] (world s) = (Inl e, w') \<longrightarrow>
        DeleteInstance s ip = (Inl e, s\<lparr>world := w'\<rparr>)) \<and>
     (\<forall>e w'. operation c ''AssociatorNames'' [op]
          [(''AssocClass'', or_None ac),
           (''ResultClass'', or_None rc),
           (''Role'', or_None role),
           (''ResultRole'', or_None rr)] (world s) = (Inl e, w') \<longrightarrow>
        AssociatorNames s op ac rc role rr = (Inl e, s\<lparr>world := w'\<rparr>)) \<and>
     (\<forall>e w'. operation c ''Associators'' [op]
          [(''AssocClass'', or_None ac),
           (''ResultClass'', or_None rc),
           (''Role'', or_None role),
           (''ResultRole'', or_None rr),
           (''IncludeQualifiers'', or_None iq),
           (''IncludeClassOrigin'', or_None ico),
           (''PropertyList'', or_None pl)] (world s) = (Inl e, w') \<longrightarrow>
        Associators s op ac rc role rr iq ico pl = (Inl e, s\<lparr>world := w'\<rparr>)) \<and>
     (\<forall>e w'. operation c ''ReferenceNames'' [op]
          [(''ResultClass'', or_None rc),
           (''Role'', or_None role)] (world s) = (Inl e, w') \<longrightarrow>
        ReferenceNames s op rc role = (Inl e, s\<lparr>world := w'\<rparr>)) \<and>
     (\<forall>e w'. operation c ''References'' [op]
          [(''ResultClass'', or_None rc),
           (''Role'', or_None role),
           (''IncludeQualifiers'', or_None iq),
           (''IncludeClassOrigin'', or_None ico),
           (''PropertyList'', or_None pl)] (world s) = (Inl e, w') \<longrightarrow>
        References s op rc role iq ico pl = (Inl e, s\<lparr>world := w'\<rparr>)) \<and>
     (''mn'' \<notin> set (map fst kwparams) \<and> ''op'' \<notin> set (map fst kwparams) \<and>
      distinct (map fst kwparams) \<longrightarrow>
      (\<forall>e w'. operation c ''InvokeMethod'' ([mn, op] @ params) kwparams (world s) =
                (Inl e, w') \<longrightarrow>
         InvokeMethod s mn op params kwparams = (Inl e, s\<lparr>world := w'\<rparr>))) \<and>
     (\<forall>e w'. operation c ''EnumerateClassNames'' [or_None ns]
          [(''ClassName'', or_None ns),
           (''DeepInheritance'', or_None deep)] (world s) = (Inl e, w') \<longrightarrow>
        EnumerateClassNames s ns cname deep = (Inl e, s\<lparr>world := w'\<rparr>)) \<and>
     (\<forall>e w'. operation c ''EnumerateClassNames'' [or_None ns]
          [(''ClassName'', or_None cname),
           (''DeepInheritance'', or_None deep),
           (''LocalOnly'', or_None lo),
           (''IncludeQualifiers'', or_None iq),
           (''IncludeClassOrigin'', or_None ico)] (world s) = (Inl e, w') \<longrightarrow>
        EnumerateClasses s ns cname deep lo iq ico = (Inl e, s\<lparr>world := w'\<rparr>)) \<and>
     (\<forall>e w'. operation c ''GetClass'' [cn, or_None ns]
          [(''LocalOnly'', or_None lo),
           (''IncludeQualifiers'', or_None iq),
           (''IncludeClassOrigin'', or_None ico),
           (''PropertyList'', or_None pl)] (world s) = (Inl e, w') \<longrightarrow>
        GetClass s cn ns lo iq ico pl = (Inl e, s\<lparr>world := w'\<rparr>)) \<and>
     (\<forall>e w'. operation c ''ModifyClass'' [cls, or_None ns] [] (world s) = (Inl e, w') \<longrightarrow>
        ModifyClass s cls ns = (Inl e, s\<lparr>world := w'\<rparr>)) \<and>
     (\<forall>e w'. operation c ''CreateClass'' [nc, or_None ns] [] (world s) = (Inl e, w') \<longrightarrow>
        CreateClass s nc ns = (Inl e, s\<lparr>world := w'\<rparr>)) \<and>
     (\<forall>e w'. operation c ''DeleteClass'' [cn, or_None ns] [] (world s) = (Inl e, w') \<longrightarrow>
        DeleteClass s cn ns = (Inl e, s\<lparr>world := w'\<rparr>)) \<and>
     (\<forall>e w'. operation c ''EnumerateQualifiers'' [or_None ns] [] (world s) = (Inl e, w') \<longrightarrow>
        EnumerateQualifiers s ns = (Inl e, s\<lparr>world := w'\<rparr>)) \<and>
     (\<forall>e w'. operation c ''GetQualifier'' [qn, or_None ns] [] (world s) = (Inl e, w') \<longrightarrow>
        GetQualifier s qn ns = (Inl e, s\<lparr>world := w'\<rparr>)) \<and>
     (\<forall>e w'. operation c ''SetQualifier'' [qd, or_None ns] [] (world s) = (Inl e, w') \<longrightarrow>
        SetQualifier s qd ns = (Inl e, s\<lparr>world := w'\<rparr>)) \<and>
     (\<forall>e w'. operation c ''DeleteQualifier'' [qn, or_None ns] [] (world s) = (Inl e, w') \<longrightarrow>
        DeleteQualifier s qn ns = (Inl e, s\<lparr>world := w'\<rparr>))"
  using assms
  by (simp add: wrapper_defs call_CONN_Some returns_None_case
      returns_None_Inl returns_None_Inr)

theorem errors_propagate_witness:
  "CONN failing_state = Some failing_connection \<and>
   EnumerateInstanceNames failing_state (PyStr ''CIM_Fan'')
       (Some (PyStr ''root/cimv2'')) =
     (Inl (CIMError 6 ''CIM_ERR_NOT_FOUND''),
      failing_state\<lparr>world :=
         [(''EnumerateInstanceNames'', [PyStr ''CIM_Fan'', PyStr ''root/cimv2''], [])]\<rparr>) \<and>
   EnumerateInstances failing_state (PyStr ''CIM_Fan'') (Some (PyStr ''root/cimv2''))
       (Some (PyBool False)) None None (Some (PyBool True)) (Some (PyList [])) =
     (Inl (CIMError 6 ''CIM_ERR_NOT_FOUND''),
      failing_state\<lparr>world :=
         [(''EnumerateInstances'', [PyStr ''CIM_Fan'', PyStr ''root/cimv2''],
           [(''LocalOnly'', PyBool False),
            (''DeepInheritance'', PyNone),
            (''IncludeQualifiers'', PyNone),
            (''IncludeClassOrigin'', PyBool True),
            (''PropertyList'', PyList [])])]\<rparr>) \<and>
   GetInstance failing_state (PyObj ''CIMInstanceName'' []) (Some (PyBool False)) None
       (Some (PyBool True)) (Some (PyList [])) =
     (Inl (CIMError 6 ''CIM_ERR_NOT_FOUND''),
      failing_state\<lparr>world :=
         [(''GetInstance'', [PyObj ''CIMInstanceName'' []],
           [(''LocalOnly'', PyBool False),
            (''IncludeQualifiers'', PyNone),
            (''IncludeClassOrigin'', PyBool True),
            (''PropertyList'', PyList [])])]\<rparr>) \<and>
   ModifyInstance failing_state (PyObj ''CIMInstance'' []) None (Some (PyList [])) =
     (Inl (CIMError 6 ''CIM_ERR_NOT_FOUND''),
      failing_state\<lparr>world :=
         [(''ModifyInstance'', [PyObj ''CIMInstance'' []],
           [(''IncludeQualifiers'', PyNone),
            (''PropertyList'', PyList [])])]\<rparr>) \<and>
   CreateInstance failing_state (PyObj ''CIMInstance'' []) =
     (Inl (CIMError 6 ''CIM_ERR_NOT_FOUND''),
      failing_state\<lparr>world :=
         [(''CreateInstance'', [PyObj ''CIMInstance'' []], [])]\<rparr>) \<and>
   DeleteInstance failing_state (PyObj ''CIMInstanceName'' []) =
     (Inl (CIMError 6 ''CIM_ERR_NOT_FOUND''),
      failing_state\<lparr>world :=
         [(''DeleteInstance'', [PyObj ''CIMInstanceName'' []], [])]\<rparr>) \<and>
   AssociatorNames failing_state (PyObj ''CIMClassName'' [])
       (Some (PyStr ''CIM_Cooling'')) None None (Some (PyStr ''Dependent'')) =
     (Inl (CIMError 6 ''CIM_ERR_NOT_FOUND''),
      failing_state\<lparr>world :=
         [(''AssociatorNames'', [PyObj ''CIMClassName'' []],
           [(''AssocClass'', PyStr ''CIM_Cooling''),
            (''ResultClass'', PyNone),
            (''Role'', PyNone),
            (''ResultRole'', PyStr ''Dependent'')])]\<rparr>) \<and>
   Associators failing_state (PyObj ''CIMClassName'' []) (Some (PyStr ''CIM_Cooling''))
       None None (Some (PyStr ''Dependent'')) None (Some (PyBool True))
       (Some (PyList [])) =
     (Inl (CIMError 6 ''CIM_ERR_NOT_FOUND''),
      failing_state\<lparr>world :=
         [(''Associators'', [PyObj ''CIMClassName'' []],
           [(''AssocClass'', PyStr ''CIM_Cooling''),
            (''ResultClass'', PyNone),
            (''Role'', PyNone),
            (''ResultRole'', PyStr ''Dependent''),
            (''IncludeQualifiers'', PyNone),
            (''IncludeClassOrigin'', PyBool True),
            (''PropertyList'', PyList [])])]\<rparr>) \<and>
   ReferenceNames failing_state (PyObj ''CIMClassName'' []) None None =
     (Inl (CIMError 6 ''CIM_ERR_NOT_FOUND''),
      failing_state\<lparr>world :=
         [(''ReferenceNames'', [PyObj ''CIMClassName'' []],
           [(''ResultClass'', PyNone),
            (''Role'', PyNone)])]\<rparr>) \<and>
   References failing_state (PyObj ''CIMClassName'' []) None None None
       (Some (PyBool True)) (Some (PyList [])) =
     (Inl (CIMError 6 ''CIM_ERR_NOT_FOUND''),
      failing_state\<lparr>world :=
         [(''References'', [PyObj ''CIMClassName'' []],
           [(''ResultClass'', PyNone),
            (''Role'', PyNone),
            (''IncludeQualifiers'', PyNone),
            (''IncludeClassOrigin'', PyBool True),
            (''PropertyList'', PyList [])])]\<rparr>) \<and>
   InvokeMethod failing_state (PyStr ''Reset'') (PyObj ''CIMClassName'' []) []
       ([(''Mode'', PyInt 2)]) =
     (Inl (CIMError 6 ''CIM_ERR_NOT_FOUND''),
      failing_state\<lparr>world :=
         [(''InvokeMethod'', [PyStr ''Reset'', PyObj ''CIMClassName'' []], [(''Mode'', PyInt 2)])]\<rparr>) \<and>
   EnumerateClassNames failing_state (Some (PyStr ''root/cimv2'')) None None =
     (Inl (CIMError 6 ''CIM_ERR_NOT_FOUND''),
      failing_state\<lparr>world :=
         [(''EnumerateClassNames'', [PyStr ''root/cimv2''],
           [(''ClassName'', PyStr ''root/cimv2''),
            (''DeepInheritance'', PyNone)])]\<rparr>) \<and>
   EnumerateClasses failing_state (Some (PyStr ''root/cimv2'')) None None
       (Some (PyBool False)) None (Some (PyBool True)) =
     (Inl (CIMError 6 ''CIM_ERR_NOT_FOUND''),
      failing_state\<lparr>world :=
         [(''EnumerateClassNames'', [PyStr ''root/cimv2''],
           [(''ClassName'', PyNone),
            (''DeepInheritance'', PyNone),
            (''LocalOnly'', PyBool False),
            (''IncludeQualifiers'', PyNone),
            (''IncludeClassOrigin'', PyBool True)])]\<rparr>) \<and>
   GetClass failing_state (PyStr ''CIM_Fan'') (Some (PyStr ''root/cimv2''))
       (Some (PyBool False)) None (Some (PyBool True)) (Some (PyList [])) =
     (Inl (CIMError 6 ''CIM_ERR_NOT_FOUND''),
      failing_state\<lparr>world :=
         [(''GetClass'', [PyStr ''CIM_Fan'', PyStr ''root/cimv2''],
           [(''LocalOnly'', PyBool False),
            (''IncludeQualifiers'', PyNone),
            (''IncludeClassOrigin'', PyBool True),
            (''PropertyList'', PyList [])])]\<rparr>) \<and>
   ModifyClass failing_state (PyObj ''CIMClass'' []) (Some (PyStr ''root/cimv2'')) =
     (Inl (CIMError 6 ''CIM_ERR_NOT_FOUND''),
      failing_state\<lparr>world :=
         [(''ModifyClass'', [PyObj ''CIMClass'' [], PyStr ''root/cimv2''], [])]\<rparr>) \<and>
   CreateClass failing_state (PyObj ''CIMClass'' []) (Some (PyStr ''root/cimv2'')) =
     (Inl (CIMError 6 ''CIM_ERR_NOT_FOUND''),
      failing_state\<lparr>world :=
         [(''CreateClass'', [PyObj ''CIMClass'' [], PyStr ''root/cimv2''], [])]\<rparr>) \<and>
   DeleteClass failing_state (PyStr ''CIM_Fan'') (Some (PyStr ''root/cimv2'')) =
     (Inl (CIMError 6 ''CIM_ERR_NOT_FOUND''),
      failing_state\<lparr>world :=
         [(''DeleteClass'', [PyStr ''CIM_Fan'', PyStr ''root/cimv2''], [])]\<rparr>) \<and>
   EnumerateQualifiers failing_state (Some (PyStr ''root/cimv2'')) =
     (Inl (CIMError 6 ''CIM_ERR_NOT_FOUND''),
      failing_state\<lparr>world :=
         [(''EnumerateQualifiers'', [PyStr ''root/cimv2''], [])]\<rparr>) \<and>
   GetQualifier failing_state (PyStr ''Key'') (Some (PyStr ''root/cimv2'')) =
     (Inl (CIMError 6 ''CIM_ERR_NOT_FOUND''),
      failing_state\<lparr>world :=
         [(''GetQualifier'', [PyStr ''Key'', PyStr ''root/cimv2''], [])]\<rparr>) \<and>
   SetQualifier failing_state (PyObj ''CIMQualifierDeclaration'' [])
       (Some (PyStr ''root/cimv2'')) =
     (Inl (CIMError 6 ''CIM_ERR_NOT_FOUND''),
      failing_state\<lparr>world :=
         [(''SetQualifier'', [PyObj ''CIMQualifierDeclaration'' [], PyStr ''root/cimv2''], [])]\<rparr>) \<and>
   DeleteQualifier failing_state (PyStr ''Key'') (Some (PyStr ''root/cimv2'')) =
     (Inl (CIMError 6 ''CIM_ERR_NOT_FOUND''),
      failing_state\<lparr>world :=
         [(''DeleteQualifier'', [PyStr ''Key'', PyStr ''root/cimv2''], [])]\<rparr>)"
  using errors_propagate
    [where cn = "PyStr ''CIM_Fan''" and
      ns = "Some (PyStr ''root/cimv2'')" and
      lo = "Some (PyBool False)" and
      deep = "None" and
      iq = "None" and
      ico = "Some (PyBool True)" and
      pl = "Some (PyList [])" and
      ip = "PyObj ''CIMInstanceName'' []" and
      inst = "PyObj ''CIMInstance'' []" and
      ni = "PyObj ''CIMInstance'' []" and
      op = "PyObj ''CIMClassName'' []" and
      ac = "Some (PyStr ''CIM_Cooling'')" and
      rc = "None" and
      role = "None" and
      rr = "Some (PyStr ''Dependent'')" and
      mn = "PyStr ''Reset''" and
      params = "[]" and
      kwparams = "[(''Mode'', PyInt 2)]" and
      cname = "None" and
      cls = "PyObj ''CIMClass'' []" and
      nc = "PyObj ''CIMClass'' []" and
      qn = "PyStr ''Key''" and
      qd = "PyObj ''CIMQualifierDeclaration'' []" and
      s = "failing_state" and
      c = "failing_connection"]
  by (simp add: fixture_defs or_None_def)

text \<open>
  Claim C10: when the connection method returns a value, \<^verbatim>\<open>ModifyInstance\<close>,
  \<^verbatim>\<open>DeleteInstance\<close>, \<^verbatim>\<open>CreateClass\<close>, \<^verbatim>\<open>DeleteClass\<close>, \<^verbatim>\<open>SetQualifier\<close> and
  \<^verbatim>\<open>DeleteQualifier\<close> drop it and return \<^verbatim>\<open>None\<close>; \<^verbatim>\<open>ModifyClass\<close> returns it, and so
  does every other operation function. The method of \<^verbatim>\<open>InvokeMethod\<close> is called, and so
  can return, only when Python can bind the call: the keyword arguments have different
  names and none is named \<^verbatim>\<open>mn\<close> or \<^verbatim>\<open>op\<close>.
\<close>

theorem return_values:
  assumes "CONN s = Some c"
  shows
    "(\<forall>v w'. operation c ''EnumerateInstanceNames'' [cn, or_None ns] [] (world s) = (Inr v, w') \<longrightarrow>
        EnumerateInstanceNames s cn ns = (Inr v, s\<lparr>world := w'\<rparr>)) \<and>
     (\<forall>v w'. operation c ''EnumerateInstances'' [cn, or_None ns]
          [(''LocalOnly'', or_None lo),
           (''DeepInheritance'', or_None deep),
           (''IncludeQualifiers'', or_None iq),
           (''IncludeClassOrigin'', or_None ico),
           (''PropertyList'', or_None pl)] (world s) = (Inr v, w') \<longrightarrow>
        EnumerateInstances s cn ns lo deep iq ico pl = (Inr v, s\<lparr>world := w'\<rparr>)) \<and>
     (\<forall>v w'. operation c ''GetInstance'' [ip]
          [(''LocalOnly'', or_None lo),
           (''IncludeQualifiers'', or_None iq),
           (''IncludeClassOrigin'', or_None ico),
           (''PropertyList'', or_None pl)] (world s) = (Inr v, w') \<longrightarrow>
        GetInstance s ip lo iq ico pl = (Inr v, s\<lparr>world := w'\<rparr>)) \<and>
     (\<forall>v w'. operation c ''ModifyInstance'' [inst]
          [(''IncludeQualifiers'', or_None iq),
           (''PropertyList'', or_None pl)] (world s) = (Inr v, w') \<longrightarrow>
        ModifyInstance s inst iq pl = (Inr PyNone, s\<lparr>world := w'\<rparr>)) \<and>
     (\<forall>v w'. operation c ''CreateInstance'' [ni] [] (world s) = (Inr v, w') \<longrightarrow>
        CreateInstance s ni = (Inr v, s\<lparr>world := w'\<rparr>)) \<and>
     (\<forall>v w'. operation c ''DeleteInstance'' [ip] [] (world s) = (Inr v, w') \<longrightarrow>
        DeleteInstance s ip = (Inr PyNone, s\<lparr>world := w'\<rparr>)) \<and>
     (\<forall>v w'. operation c ''AssociatorNames'' [op]
          [(''AssocClass'', or_None ac),
           (''ResultClass'', or_None rc),
           (''Role'', or_None role),
           (''ResultRole'', or_None rr)] (world s) = (Inr v, w') \<longrightarrow>
        AssociatorNames s op ac rc role rr = (Inr v, s\<lparr>world := w'\<rparr>)) \<and>
     (\<forall>v w'. operation c ''Associators'' [op]
          [(''AssocClass'', or_None ac),
           (''ResultClass'', or_None rc),
           (''Role'', or_None role),
           (''ResultRole'', or_None rr),
           (''IncludeQualifiers'', or_None iq),
           (''IncludeClassOrigin'', or_None ico),
           (''PropertyList'', or_None pl)] (world s) = (Inr v, w') \<longrightarrow>
        Associators s op ac rc role rr iq ico pl = (Inr v, s\<lparr>world := w'\<rparr>)) \<and>
     (\<forall>v w'. operation c ''ReferenceNames'' [op]
          [(''ResultClass'', or_None rc),
           (''Role'', or_None role)] (world s) = (Inr v, w') \<longrightarrow>
        ReferenceNames s op rc role = (Inr v, s\<lparr>world := w'\<rparr>)) \<and>
     (\<forall>v w'. operation c ''References'' [op]
          [(''ResultClass'', or_None rc),
           (''Role'', or_None role),
           (''IncludeQualifiers'', or_None iq),
           (''IncludeClassOrigin'', or_None ico),
           (''PropertyList'', or_None pl)] (world s) = (Inr v, w') \<longrightarrow>
        References s op rc role iq ico pl = (Inr v, s\<lparr>world := w'\<rparr>)) \<and>
     (''mn'' \<notin> set (map fst kwparams) \<and> ''op'' \<notin> set (map fst kwparams) \<and>
      distinct (map fst kwparams) \<longrightarrow>
      (\<forall>v w'. operation c ''InvokeMethod'' ([mn, op] @ params) kwparams (world s) =
                (Inr v, w') \<longrightarrow>
         InvokeMethod s mn op params kwparams = (Inr v, s\<lparr>world := w'\<rparr>))) \<and>
     (\<forall>v w'. operation c ''EnumerateClassNames'' [or_None ns]
          [(''ClassName'', or_None ns),
           (''DeepInheritance'', or_None deep)] (world s) = (Inr v, w') \<longrightarrow>
        EnumerateClassNames s ns cname deep = (Inr v, s\<lparr>world := w'\<rparr>)) \<and>
     (\<forall>v w'. operation c ''EnumerateClassNames'' [or_None ns]
          [(''ClassName'', or_None cname),
           (''DeepInheritance'', or_None deep),
           (''LocalOnly'', or_None lo),
           (''IncludeQualifiers'', or_None iq),
           (''IncludeClassOrigin'', or_None ico)] (world s) = (Inr v, w') \<longrightarrow>
        EnumerateClasses s ns cname deep lo iq ico = (Inr v, s\<lparr>world := w'\<rparr>)) \<and>
     (\<forall>v w'. operation c ''GetClass'' [cn, or_None ns]
          [(''LocalOnly'', or_None lo),
           (''IncludeQualifiers'', or_None iq),
           (''IncludeClassOrigin'', or_None ico),
           (''PropertyList'', or_None pl)] (world s) = (Inr v, w') \<longrightarrow>
        GetClass s cn ns lo iq ico pl = (Inr v, s\<lparr>world := w'\<rparr>)) \<and>
     (\<forall>v w'. operation c ''ModifyClass'' [cls, or_None ns] [] (world s) = (Inr v, w') \<longrightarrow>
        ModifyClass s cls ns = (Inr v, s\<lparr>world := w'\<rparr>)) \<and>
     (\<forall>v w'. operation c ''CreateClass'' [nc, or_None ns] [] (world s) = (Inr v, w') \<longrightarrow>
        CreateClass s nc ns = (Inr PyNone, s\<lparr>world := w'\<rparr>)) \<and>
     (\<forall>v w'. operation c ''DeleteClass'' [cn, or_None ns] [] (world s) = (Inr v, w') \<longrightarrow>
        DeleteClass s cn ns = (Inr PyNone, s\<lparr>world := w'\<rparr>)) \<and>
     (\<forall>v w'. operation c ''EnumerateQualifiers'' [or_None ns] [] (world s) = (Inr v, w') \<longrightarrow>
        EnumerateQualifiers s ns = (Inr v, s\<lparr>world := w'\<rparr>)) \<and>
     (\<forall>v w'. operation c ''GetQualifier'' [qn, or_None ns] [] (world s) = (Inr v, w') \<longrightarrow>
        GetQualifier s qn ns = (Inr v, s\<lparr>world := w'\<rparr>)) \<and>
     (\<forall>v w'. operation c ''SetQualifier'' [qd, or_None ns] [] (world s) = (Inr v, w') \<longrightarrow>
        SetQualifier s qd ns = (Inr PyNone, s\<lparr>world := w'\<rparr>)) \<and>
     (\<forall>v w'. operation c ''DeleteQualifier'' [qn, or_None ns] [] (world s) = (Inr v, w') \<longrightarrow>
        DeleteQualifier s qn ns = (Inr PyNone, s\<lparr>world := w'\<rparr>))"
  using assms
  by (simp add: wrapper_defs call_CONN_Some returns_None_case
      returns_None_Inl returns_None_Inr)

theorem return_values_witness:
  "CONN echo_state = Some echo_connection \<and>
   EnumerateInstanceNames echo_state (PyStr ''CIM_Fan'') (Some (PyStr ''root/cimv2'')) =
     (Inr (PyStr ''EnumerateInstanceNames''),
      echo_state\<lparr>world :=
         [(''EnumerateInstanceNames'', [PyStr ''CIM_Fan'', PyStr ''root/cimv2''], [])]\<rparr>) \<and>
   EnumerateInstances echo_state (PyStr ''CIM_Fan'') (Some (PyStr ''root/cimv2''))
       (Some (PyBool False)) None None (Some (PyBool True)) (Some (PyList [])) =
     (Inr (PyStr ''EnumerateInstances''),
      echo_state\<lparr>world :=
         [(''EnumerateInstances'', [PyStr ''CIM_Fan'', PyStr ''root/cimv2''],
           [(''LocalOnly'', PyBool False),
            (''DeepInheritance'', PyNone),
            (''IncludeQualifiers'', PyNone),
            (''IncludeClassOrigin'', PyBool True),
            (''PropertyList'', PyList [])])]\<rparr>) \<and>
   GetInstance echo_state (PyObj ''CIMInstanceName'' []) (Some (PyBool False)) None
       (Some (PyBool True)) (Some (PyList [])) =
     (Inr (PyStr ''GetInstance''),
      echo_state\<lparr>world :=
         [(''GetInstance'', [PyObj ''CIMInstanceName'' []],
           [(''LocalOnly'', PyBool False),
            (''IncludeQualifiers'', PyNone),
            (''IncludeClassOrigin'', PyBool True),
            (''PropertyList'', PyList [])])]\<rparr>) \<and>
   ModifyInstance echo_state (PyObj ''CIMInstance'' []) None (Some (PyList [])) =
     (Inr PyNone,
      echo_state\<lparr>world :=
         [(''ModifyInstance'', [PyObj ''CIMInstance'' []],
           [(''IncludeQualifiers'', PyNone),
            (''PropertyList'', PyList [])])]\<rparr>) \<and>
   CreateInstance echo_state (PyObj ''CIMInstance'' []) =
     (Inr (PyStr ''CreateInstance''),
      echo_state\<lparr>world :=
         [(''CreateInstance'', [PyObj ''CIMInstance'' []], [])]\<rparr>) \<and>
   DeleteInstance echo_state (PyObj ''CIMInstanceName'' []) =
     (Inr PyNone,
      echo_state\<lparr>world :=
         [(''DeleteInstance'', [PyObj ''CIMInstanceName'' []], [])]\<rparr>) \<and>
   AssociatorNames echo_state (PyObj ''CIMClassName'' [])
       (Some (PyStr ''CIM_Cooling'')) None None (Some (PyStr ''Dependent'')) =
     (Inr (PyStr ''AssociatorNames''),
      echo_state\<lparr>world :=
         [(''AssociatorNames'', [PyObj ''CIMClassName'' []],
           [(''AssocClass'', PyStr ''CIM_Cooling''),
            (''ResultClass'', PyNone),
            (''Role'', PyNone),
            (''ResultRole'', PyStr ''Dependent'')])]\<rparr>) \<and>
   Associators echo_state (PyObj ''CIMClassName'' []) (Some (PyStr ''CIM_Cooling''))
       None None (Some (PyStr ''Dependent'')) None (Some (PyBool True))
       (Some (PyList [])) =
     (Inr (PyStr ''Associators''),
      echo_state\<lparr>world :=
         [(''Associators'', [PyObj ''CIMClassName'' []],
           [(''AssocClass'', PyStr ''CIM_Cooling''),
            (''ResultClass'', PyNone),
            (''Role'', PyNone),
            (''ResultRole'', PyStr ''Dependent''),
            (''IncludeQualifiers'', PyNone),
            (''IncludeClassOrigin'', PyBool True),
            (''PropertyList'', PyList [])])]\<rparr>) \<and>
   ReferenceNames echo_state (PyObj ''CIMClassName'' []) None None =
     (Inr (PyStr ''ReferenceNames''),
      echo_state\<lparr>world :=
         [(''ReferenceNames'', [PyObj ''CIMClassName'' []],
           [(''ResultClass'', PyNone),
            (''Role'', PyNone)])]\<rparr>) \<and>
   References echo_state (PyObj ''CIMClassName'' []) None None None
       (Some (PyBool True)) (Some (PyList [])) =
     (Inr (PyStr ''References''),
      echo_state\<lparr>world :=
         [(''References'', [PyObj ''CIMClassName'' []],
           [(''ResultClass'', PyNone),
            (''Role'', PyNone),
            (''IncludeQualifiers'', PyNone),
            (''IncludeClassOrigin'', PyBool True),
            (''PropertyList'', PyList [])])]\<rparr>) \<and>
   InvokeMethod echo_state (PyStr ''Reset'') (PyObj ''CIMClassName'' []) []
       ([(''Mode'', PyInt 2)]) =
     (Inr (PyStr ''InvokeMethod''),
      echo_state\<lparr>world :=
         [(''InvokeMethod'', [PyStr ''Reset'', PyObj ''CIMClassName'' []], [(''Mode'', PyInt 2)])]\<rparr>) \<and>
   EnumerateClassNames echo_state (Some (PyStr ''root/cimv2'')) None None =
     (Inr (PyStr ''EnumerateClassNames''),
      echo_state\<lparr>world :=
         [(''EnumerateClassNames'', [PyStr ''root/cimv2''],
           [(''ClassName'', PyStr ''root/cimv2''),
            (''DeepInheritance'', PyNone)])]\<rparr>) \<and>
   EnumerateClasses echo_state (Some (PyStr ''root/cimv2'')) None None
       (Some (PyBool False)) None (Some (PyBool True)) =
     (Inr (PyStr ''EnumerateClassNames''),
      echo_state\<lparr>world :=
         [(''EnumerateClassNames'', [PyStr ''root/cimv2''],
           [(''ClassName'', PyNone),
            (''DeepInheritance'', PyNone),
            (''LocalOnly'', PyBool False),
            (''IncludeQualifiers'', PyNone),
            (''IncludeClassOrigin'', PyBool True)])]\<rparr>) \<and>
   GetClass echo_state (PyStr ''CIM_Fan'') (Some (PyStr ''root/cimv2''))
       (Some (PyBool False)) None (Some (PyBool True)) (Some (PyList [])) =
     (Inr (PyStr ''GetClass''),
      echo_state\<lparr>world :=
         [(''GetClass'', [PyStr ''CIM_Fan'', PyStr ''root/cimv2''],
           [(''LocalOnly'', PyBool False),
            (''IncludeQualifiers'', PyNone),
            (''IncludeClassOrigin'', PyBool True),
            (''PropertyList'', PyList [])])]\<rparr>) \<and>
   ModifyClass echo_state (PyObj ''CIMClass'' []) (Some (PyStr ''root/cimv2'')) =
     (Inr (PyStr ''ModifyClass''),
      echo_state\<lparr>world :=
         [(''ModifyClass'', [PyObj ''CIMClass'' [], PyStr ''root/cimv2''], [])]\<rparr>) \<and>
   CreateClass echo_state (PyObj ''CIMClass'' []) (Some (PyStr ''root/cimv2'')) =
     (Inr PyNone,
      echo_state\<lparr>world :=
         [(''CreateClass'', [PyObj ''CIMClass'' [], PyStr ''root/cimv2''], [])]\<rparr>) \<and>
   DeleteClass echo_state (PyStr ''CIM_Fan'') (Some (PyStr ''root/cimv2'')) =
     (Inr PyNone,
      echo_state\<lparr>world :=
         [(''DeleteClass'', [PyStr ''CIM_Fan'', PyStr ''root/cimv2''], [])]\<rparr>) \<and>
   EnumerateQualifiers echo_state (Some (PyStr ''root/cimv2'')) =
     (Inr (PyStr ''EnumerateQualifiers''),
      echo_state\<lparr>world :=
         [(''EnumerateQualifiers'', [PyStr ''root/cimv2''], [])]\<rparr>) \<and>
   GetQualifier echo_state (PyStr ''Key'') (Some (PyStr ''root/cimv2'')) =
     (Inr (PyStr ''GetQualifier''),
      echo_state\<lparr>world :=
         [(''GetQualifier'', [PyStr ''Key'', PyStr ''root/cimv2''], [])]\<rparr>) \<and>
   SetQualifier echo_state (PyObj ''CIMQualifierDeclaration'' [])
       (Some (PyStr ''root/cimv2'')) =
     (Inr PyNone,
      echo_state\<lparr>world :=
         [(''SetQualifier'', [PyObj ''CIMQualifierDeclaration'' [], PyStr ''root/cimv2''], [])]\<rparr>) \<and>
   DeleteQualifier echo_state (PyStr ''Key'') (Some (PyStr ''root/cimv2'')) =
     (Inr PyNone,
      echo_state\<lparr>world :=
         [(''DeleteQualifier'', [PyStr ''Key'', PyStr ''root/cimv2''], [])]\<rparr>)"
  using return_values
    [where cn = "PyStr ''CIM_Fan''" and
      ns = "Some (PyStr ''root/cimv2'')" and
      lo = "Some (PyBool False)" and
      deep = "None" and
      iq = "None" and
      ico = "Some (PyBool True)" and
      pl = "Some (PyList [])" and
      ip = "PyObj ''CIMInstanceName'' []" and
      inst = "PyObj ''CIMInstance'' []" and
      ni = "PyObj ''CIMInstance'' []" and
      op = "PyObj ''CIMClassName'' []" and
      ac = "Some (PyStr ''CIM_Cooling'')" and
      rc = "None" and
      role = "None" and
      rr = "Some (PyStr ''Dependent'')" and
      mn = "PyStr ''Reset''" and
      params = "[]" and
      kwparams = "[(''Mode'', PyInt 2)]" and
      cname = "None" and
      cls = "PyObj ''CIMClass'' []" and
      nc = "PyObj ''CIMClass'' []" and
      qn = "PyStr ''Key''" and
      qd = "PyObj ''CIMQualifierDeclaration'' []" and
      s = "echo_state" and
      c = "echo_connection"]
  by (simp add: fixture_defs or_None_def)

section \<open>The connection\<close>

text \<open>
  The two ways in which \<^verbatim>\<open>_remote_connection\<close> ends without calling \<^verbatim>\<open>WBEMConnection\<close>:
  \<^verbatim>\<open>server[0]\<close> raises \<^verbatim>\<open>IndexError\<close> for the empty string, which \<^verbatim>\<open>main\<close> refuses before the
  call (\<^verbatim>\<open>if not args.server: argparser.error(...)\<close>), and the password prompt raises.
\<close>

lemma remote_connection_empty_server:
  "remote_connection new_conn getpass [] opts s = (Inl IndexError, opts, s)"
  by (simp add: remote_connection_def)

lemma remote_connection_prompt_raises:
  assumes "srv \<noteq> []" and "user opts = Some u" and "password opts = None"
    and "getpass (''Enter password for '' @ u @ '': '') = Inl e"
  shows "remote_connection new_conn getpass srv opts s = (Inl e, opts, s)"
  using assms by (cases srv) (simp_all add: remote_connection_def Let_def)



text \<open>
  Claim C9: the credentials given to \<^verbatim>\<open>WBEMConnection\<close> are \<^verbatim>\<open>None\<close> exactly when the user
  and the password (after the prompt) are both \<^verbatim>\<open>None\<close>; otherwise they are the pair of
  the user and the password, so a password without a user gives \<^verbatim>\<open>(None, password)\<close>.
\<close>

theorem remote_connection_creds:
  assumes "srv \<noteq> []"
    and "\<forall>u. user opts = Some u \<and> password opts = None \<longrightarrow>
           getpass (''Enter password for '' @ u @ '': '') = Inr pw"
  shows
    "\<exists>u. remote_connection new_conn getpass srv opts s =
         (let pw' = (if user opts \<noteq> None \<and> password opts = None then Some pw
                     else password opts);
              cr = (if user opts = None \<and> pw' = None then None else Some (user opts, pw'));
              conn = (new_conn u cr (namespace opts))\<lparr>debug := True\<rparr>
          in (Inr conn, opts\<lparr>password := pw'\<rparr>, s\<lparr>CONN := Some conn\<rparr>))"
proof -
  from assms(1) obtain c0 rest where srv: "srv = c0 # rest"
    by (cases srv) auto
  from remote_connection_result [OF srv assms(2), of new_conn s]
  show ?thesis
    by (simp only: Let_def) blast
qed

theorem remote_connection_creds_witness:
  "''localhost'' \<noteq> [] \<and>
   (\<exists>u. remote_connection (recording_connection (\<lambda>m. Inr (PyStr m))) (\<lambda>p. Inl EOFError)
        ''localhost''
        \<lparr>server = Some ''localhost'', port = None, no_ssl = False,
         namespace = ''root/cimv2'', user = None, password = Some ''penny42'',
         verbose = False\<rparr>
        \<lparr>CONN = None, world = []\<rparr> =
      (Inr ((recording_connection (\<lambda>m. Inr (PyStr m)) u (Some (None, Some ''penny42''))
               ''root/cimv2'')\<lparr>debug := True\<rparr>),
       \<lparr>server = Some ''localhost'', port = None, no_ssl = False,
         namespace = ''root/cimv2'', user = None, password = Some ''penny42'',
         verbose = False\<rparr>,
       \<lparr>CONN = Some ((recording_connection (\<lambda>m. Inr (PyStr m)) u
                        (Some (None, Some ''penny42'')) ''root/cimv2'')\<lparr>debug := True\<rparr>),
        world = []\<rparr>)) \<and>
   (\<exists>u. remote_connection (recording_connection (\<lambda>m. Inr (PyStr m))) (\<lambda>p. Inr ''penny42'')
        ''localhost''
        \<lparr>server = Some ''localhost'', port = None, no_ssl = False,
         namespace = ''root/cimv2'', user = Some ''sheldon'', password = None,
         verbose = False\<rparr>
        \<lparr>CONN = None, world = []\<rparr> =
      (Inr ((recording_connection (\<lambda>m. Inr (PyStr m)) u
               (Some (Some ''sheldon'', Some ''penny42'')) ''root/cimv2'')\<lparr>debug := True\<rparr>),
       \<lparr>server = Some ''localhost'', port = None, no_ssl = False,
         namespace = ''root/cimv2'', user = Some ''sheldon'', password = Some ''penny42'',
         verbose = False\<rparr>,
       \<lparr>CONN = Some ((recording_connection (\<lambda>m. Inr (PyStr m)) u
                        (Some (Some ''sheldon'', Some ''penny42'')) ''root/cimv2'')
                      \<lparr>debug := True\<rparr>),
        world = []\<rparr>)) \<and>
   (\<exists>u. remote_connection (recording_connection (\<lambda>m. Inr (PyStr m))) (\<lambda>p. Inl EOFError)
        ''localhost''
        \<lparr>server = Some ''localhost'', port = None, no_ssl = False,
         namespace = ''root/cimv2'', user = None, password = None, verbose = False\<rparr>
        \<lparr>CONN = None, world = []\<rparr> =
      (Inr ((recording_connection (\<lambda>m. Inr (PyStr m)) u None ''root/cimv2'')
              \<lparr>debug := True\<rparr>),
       \<lparr>server = Some ''localhost'', port = None, no_ssl = False,
         namespace = ''root/cimv2'', user = None, password = None, verbose = False\<rparr>,
       \<lparr>CONN = Some ((recording_connection (\<lambda>m. Inr (PyStr m)) u None ''root/cimv2'')
                      \<lparr>debug := True\<rparr>),
        world = []\<rparr>))"
  using
    remote_connection_creds
      [where srv = "''localhost''"
         and opts = "\<lparr>server = Some ''localhost'', port = None, no_ssl = False,
           namespace = ''root/cimv2'', user = None, password = Some ''penny42'',
           verbose = False\<rparr>"
         and getpass = "\<lambda>p. Inl EOFError" and pw = "''unused''"
         and new_conn = "recording_connection (\<lambda>m. Inr (PyStr m))"
         and s = "\<lparr>CONN = None, world = []\<rparr>"]
    remote_connection_creds
      [where srv = "''localhost''"
         and opts = "\<lparr>server = Some ''localhost'', port = None, no_ssl = False,
           namespace = ''root/cimv2'', user = Some ''sheldon'', password = None,
           verbose = False\<rparr>"
         and getpass = "\<lambda>p. Inr ''penny42''" and pw = "''penny42''"
         and new_conn = "recording_connection (\<lambda>m. Inr (PyStr m))"
         and s = "\<lparr>CONN = None, world = []\<rparr>"]
    remote_connection_creds
      [where srv = "''localhost''"
         and opts = "\<lparr>server = Some ''localhost'', port = None, no_ssl = False,
           namespace = ''root/cimv2'', user = None, password = None, verbose = False\<rparr>"
         and getpass = "\<lambda>p. Inl EOFError" and pw = "''unused''"
         and new_conn = "recording_connection (\<lambda>m. Inr (PyStr m))"
         and s = "\<lparr>CONN = None, world = []\<rparr>"]
  by (simp add: Let_def)

text \<open>
  Claim C7: \<^verbatim>\<open>_get_connection_info\<close> depends on the attributes \<^verbatim>\<open>url\<close>, \<^verbatim>\<open>creds\<close> and
  \<^verbatim>\<open>default_namespace\<close> of the connection only. Its text holds the URL and the default
  namespace; between them it says \<^verbatim>\<open>as\<close> and the user name \<^verbatim>\<open>creds[0]\<close> when there are
  credentials (\<^verbatim>\<open>as None\<close> when the credentials have a password and no user), and
  \<^verbatim>\<open>without credentials\<close> when there are none.
\<close>

theorem get_connection_info_text:
  assumes "CONN s = Some c"
  shows
    "(\<exists>info.
       get_connection_info s = Inr info \<and>
       info = ''Connected to '' @ url c @
              (case creds c of
                 None \<Rightarrow> '' without credentials''
               | Some (None, pw) \<Rightarrow> '' as None''
               | Some (Some u, pw) \<Rightarrow> '' as '' @ u) @
              '', default namespace '' @ default_namespace c \<and>
       sublist (url c) info \<and> sublist (default_namespace c) info \<and>
       (case creds c of
          None \<Rightarrow> sublist '' without credentials'' info
        | Some (None, pw) \<Rightarrow> sublist '' as None'' info
        | Some (Some u, pw) \<Rightarrow> sublist ('' as '' @ u) info)) \<and>
     (\<forall>s' c'. CONN s' = Some c' \<and> url c' = url c \<and> creds c' = creds c \<and>
        default_namespace c' = default_namespace c \<longrightarrow>
        get_connection_info s' = get_connection_info s)"
proof -
  let ?mid = "(case creds c of
                 None \<Rightarrow> '' without credentials''
               | Some (None, pw) \<Rightarrow> '' as None''
               | Some (Some u, pw) \<Rightarrow> '' as '' @ u)"
  let ?info = "''Connected to '' @ url c @ ?mid @ '', default namespace '' @ default_namespace c"
  have eq: "get_connection_info s = Inr ?info"
    using assms
    by (simp add: get_connection_info_def fmt_s_def Let_def split: option.splits prod.splits)
  have u: "sublist (url c) ?info"
    by (rule sublist_mid)
  have n: "sublist (default_namespace c) ?info"
    using sublist_mid
      [of "default_namespace c" "''Connected to '' @ url c @ ?mid @ '', default namespace ''" "[]"]
    by simp
  have m: "sublist ?mid ?info"
    using sublist_mid
      [of ?mid "''Connected to '' @ url c" "'', default namespace '' @ default_namespace c"]
    by simp
  have m': "(case creds c of
          None \<Rightarrow> sublist '' without credentials'' ?info
        | Some (None, pw) \<Rightarrow> sublist '' as None'' ?info
        | Some (Some u, pw) \<Rightarrow> sublist ('' as '' @ u) ?info)"
    using m by (simp split: option.splits prod.splits)
  have ind: "\<forall>s' c'. CONN s' = Some c' \<and> url c' = url c \<and> creds c' = creds c \<and>
        default_namespace c' = default_namespace c \<longrightarrow>
        get_connection_info s' = get_connection_info s"
    using assms by (simp add: get_connection_info_def Let_def split: option.splits)
  from eq u n m' ind show ?thesis by blast
qed

theorem get_connection_info_text_witness:
  "CONN failing_state = Some failing_connection \<and>
   get_connection_info failing_state =
     Inr ''Connected to https://localhost:5989 as sheldon, default namespace root/cimv2'' \<and>
   get_connection_info \<lparr>CONN = Some (failing_connection\<lparr>debug := True\<rparr>), world = []\<rparr> =
     get_connection_info failing_state \<and>
   CONN echo_state = Some echo_connection \<and>
   get_connection_info echo_state =
     Inr ''Connected to https://localhost:5989 without credentials, default namespace root/cimv2'' \<and>
   CONN \<lparr>CONN = Some (echo_connection\<lparr>creds := Some (None, Some ''penny42'')\<rparr>), world = []\<rparr> =
     Some (echo_connection\<lparr>creds := Some (None, Some ''penny42'')\<rparr>) \<and>
   get_connection_info
     \<lparr>CONN = Some (echo_connection\<lparr>creds := Some (None, Some ''penny42'')\<rparr>), world = []\<rparr> =
     Inr ''Connected to https://localhost:5989 as None, default namespace root/cimv2''"
proof -
  let ?s3 = "\<lparr>CONN = Some (echo_connection\<lparr>creds := Some (None, Some ''penny42'')\<rparr>),
             world = ([] :: call_log)\<rparr>"
  have c: "CONN failing_state = Some failing_connection"
    by (simp add: failing_state_def)
  have c': "CONN echo_state = Some echo_connection"
    by (simp add: echo_state_def)
  have c'': "CONN ?s3 = Some (echo_connection\<lparr>creds := Some (None, Some ''penny42'')\<rparr>)"
    by simp
  note t = get_connection_info_text [OF c]
  have "get_connection_info failing_state =
     Inr ''Connected to https://localhost:5989 as sheldon, default namespace root/cimv2''"
    using t [THEN conjunct1] by (auto simp: fixture_defs)
  moreover have
    "get_connection_info \<lparr>CONN = Some (failing_connection\<lparr>debug := True\<rparr>), world = []\<rparr> =
     get_connection_info failing_state"
    using t [THEN conjunct2, rule_format,
        of "\<lparr>CONN = Some (failing_connection\<lparr>debug := True\<rparr>), world = []\<rparr>"
           "failing_connection\<lparr>debug := True\<rparr>"]
    by simp
  moreover have "get_connection_info echo_state =
     Inr ''Connected to https://localhost:5989 without credentials, default namespace root/cimv2''"
    using get_connection_info_text [OF c', THEN conjunct1] by (auto simp: fixture_defs)
  moreover have "get_connection_info ?s3 =
     Inr ''Connected to https://localhost:5989 as None, default namespace root/cimv2''"
    using get_connection_info_text [OF c'', THEN conjunct1] by (auto simp: fixture_defs)
  ultimately show ?thesis using c c' c'' by simp
qed

section \<open>Short and long names\<close>

text \<open>
  Claim C8: each short name denotes the same function as its long name, so a call
  through either gives the same result for all arguments.
\<close>

theorem short_names_are_long_names:
  "ein = EnumerateInstanceNames \<and> ei = EnumerateInstances \<and> gi = GetInstance \<and>
   mi = ModifyInstance \<and> ci = CreateInstance \<and> di = DeleteInstance \<and>
   an = AssociatorNames \<and> a = Associators \<and> rn = ReferenceNames \<and> r = References \<and>
   im = InvokeMethod \<and> ecn = EnumerateClassNames \<and> ec = EnumerateClasses \<and>
   gc = GetClass \<and> mc = ModifyClass \<and> cc = CreateClass \<and> dc = DeleteClass \<and>
   eq = EnumerateQualifiers \<and> gq = GetQualifier \<and> sq = SetQualifier \<and>
   dq = DeleteQualifier"
  by (simp add: ein_def ei_def gi_def mi_def ci_def di_def an_def a_def rn_def r_def im_def
      ecn_def ec_def gc_def mc_def cc_def dc_def eq_def gq_def sq_def dq_def)

end
